theory Spec2Isabelle
  imports Main "HOL-Library.Sublist"
begin

section \<open>Objects of the bundle\<close>

text \<open>
  The Kubernetes and Tekton object types are declared outside
  \<^verbatim>\<open>tekton-pipelines.go\<close>. Each one is a record that extends \<open>ObjectMeta\<close>, as
  the Go structs embed it, with the fields the operand reads or writes and a few
  payload fields beside them. Field names shared by several structs are written
  qualified (\<open>Subject.Namespace\<close>, \<open>ParamSpec.Name\<close>).
\<close>

record ObjectMeta =
  Name :: string
  Namespace :: string
  Labels :: "(string \<times> string) list"

datatype ParamType = ParamTypeString | ParamTypeArray | ParamTypeObject

record ParamValue =
  Type :: ParamType
  StringVal :: string
  ArrayVal :: "string list"
  ObjectVal :: "(string \<times> string) list"

record ParamSpec =
  Name :: string
  Type :: ParamType
  Description :: string
  Default :: "ParamValue option"

record PipelineSpec =
  Description :: string
  Params :: "ParamSpec list"
  Tasks :: "string list"
  Finally :: "string list"

record Pipeline = ObjectMeta +
  Spec :: PipelineSpec

record ConfigMap = ObjectMeta +
  Data :: "(string \<times> string) list"

record Subject =
  Kind :: string
  APIGroup :: string
  Name :: string
  Namespace :: string

record RoleRef =
  APIGroup :: string
  Kind :: string
  Name :: string

record RoleBinding = ObjectMeta +
  Subjects :: "Subject list"
  RoleRef :: RoleRef

record ServiceAccount = ObjectMeta +
  Secrets :: "string list"

record PolicyRule =
  Verbs :: "string list"
  APIGroups :: "string list"
  Resources :: "string list"

record ClusterRole = ObjectMeta +
  Rules :: "PolicyRule list"

text \<open>\<^verbatim>\<open>client.Object\<close>: the interface all five kinds implement.\<close>

datatype Object =
    PipelineObj Pipeline
  | ConfigMapObj ConfigMap
  | RoleBindingObj RoleBinding
  | ServiceAccountObj ServiceAccount
  | ClusterRoleObj ClusterRole

fun GetName :: "Object \<Rightarrow> string" where
  "GetName (PipelineObj p) = ObjectMeta.Name p"
| "GetName (ConfigMapObj cm) = ObjectMeta.Name cm"
| "GetName (RoleBindingObj rb) = ObjectMeta.Name rb"
| "GetName (ServiceAccountObj sa) = ObjectMeta.Name sa"
| "GetName (ClusterRoleObj cr) = ObjectMeta.Name cr"

text \<open>
  The struct \<^verbatim>\<open>tektonPipelines\<close>. \<^verbatim>\<open>New\<close> stores the bundle's own slices in it, so
  its five lists are the shared backing arrays of the bundle.
\<close>

record tektonPipelines =
  pipelines :: "Pipeline list"
  configMaps :: "ConfigMap list"
  roleBindings :: "RoleBinding list"
  serviceAccounts :: "ServiceAccount list"
  clusterRoles :: "ClusterRole list"

section \<open>The request and its surroundings\<close>

record FeatureGates =
  DeployTektonTaskResources :: bool

record TektonPipelines =
  Namespace :: string

text \<open>
  \<open>TektonPipelines\<close> is a pointer the code compares with \<^verbatim>\<open>nil\<close>, hence an
  option; \<open>FeatureGates\<close> is read without such a test and is a plain struct.
\<close>

record SSPSpec =
  FeatureGates :: FeatureGates
  TektonPipelines :: "TektonPipelines option"

record SSPStatus =
  ObservedVersion :: string

record SSP = ObjectMeta +
  Spec :: SSPSpec
  Status :: SSPStatus

record CrdList =
  CrdExists :: "string \<Rightarrow> bool"

record Request =
  Instance :: SSP
  CrdList :: CrdList

text \<open>
  The process-wide values the operand reads through package \<^verbatim>\<open>common\<close>:
  \<^verbatim>\<open>common.GetOperatorVersion()\<close> and \<^verbatim>\<open>common.GetVirtioImage()\<close>.
\<close>

record common =
  GetOperatorVersion :: string
  GetVirtioImage :: string

datatype error = Errorf string

text \<open>
  Modelled from the spec: the enumeration \<^verbatim>\<open>common.OperationResult\<close> and the struct
  \<^verbatim>\<open>common.ReconcileResult\<close>, declared outside this file, which names the value
  \<^verbatim>\<open>OperationResultUpdated\<close> and the fields \<^verbatim>\<open>OperationResult\<close> and \<^verbatim>\<open>Resource\<close>
  only. A result is one of created, updated and unchanged, paired with the resource.
\<close>

datatype OperationResult =
  OperationResultCreated | OperationResultUpdated | OperationResultUnchanged

record ReconcileResult =
  Resource :: Object
  OperationResult :: OperationResult

datatype AppComponent = AppComponentTektonPipelines

text \<open>
  What the builder chain \<^verbatim>\<open>common.CreateOrUpdate(request).ClusterResource(..)
  .WithAppLabels(..).UpdateFunc(..)\<close> has collected when \<^verbatim>\<open>Reconcile()\<close> is called on
  it. An update function receives the desired and the found object and returns both
  as it leaves them; \<open>None\<close> is a failed type assertion.
\<close>

record ReconcileBuilder =
  ClusterResource :: Object
  WithAppLabels :: "string \<times> AppComponent"
  UpdateFunc :: "(Object \<Rightarrow> Object \<Rightarrow> (Object \<times> Object) option) option"

text \<open>An entry written to \<^verbatim>\<open>request.Logger\<close>: verbosity level and message.\<close>

record LogEntry =
  V :: nat
  Info :: string

text \<open>
  Everything a pass can change: the operand \<^verbatim>\<open>t\<close> with the objects behind its
  slices, the cluster (of any type \<open>'c\<close>, owned by the gateway) and the logger's
  output.
\<close>

record 'c world =
  operand :: tektonPipelines
  cluster :: 'c
  logger :: "LogEntry list"

text \<open>
  The Cluster Gateway is outside this file. The call \<^verbatim>\<open>Reconcile()\<close> of a builder is
  a parameter \<open>gw\<close> of every definition that reaches it: any function from the
  request, the builder and the cluster to a result or an error and the cluster
  after the call. It receives the resource of the builder as a value: what the
  gateway may write through the pointer it is given is not in this file and is not
  modelled.
\<close>

type_synonym 'c CreateOrUpdate =
  "Request \<Rightarrow> ReconcileBuilder \<Rightarrow> 'c \<Rightarrow> (error + ReconcileResult) \<times> 'c"

type_synonym 'c ReconcileFunc =
  "Request \<Rightarrow> 'c world \<Rightarrow> (error + ReconcileResult) \<times> 'c world"

section \<open>Constants\<close>

definition operandName :: string where
  "operandName = ''tekton-pipelines''"

definition operandComponent :: AppComponent where
  "operandComponent = AppComponentTektonPipelines"

definition tektonCrd :: string where
  "tektonCrd = ''tasks.tekton.dev''"

text \<open>
  \<^verbatim>\<open>namespacePattern = "^(openshift|kube)-"\<close>. The pattern uses literals, one
  alternation, concatenation and the anchor at the start of the text; \<open>matchPrefix\<close>
  returns what is left of the text after each way of matching at its start, and
  \<open>MatchString\<close> of the anchored pattern asks for one such way.
\<close>

datatype regexp = Lit string | Alt regexp regexp | Concat regexp regexp

fun matchPrefix :: "regexp \<Rightarrow> string \<Rightarrow> string list" where
  "matchPrefix (Lit l) s = (if prefix l s then [drop (length l) s] else [])"
| "matchPrefix (Alt a b) s = matchPrefix a s @ matchPrefix b s"
| "matchPrefix (Concat a b) s = concat (map (matchPrefix b) (matchPrefix a s))"

definition MatchString :: "regexp \<Rightarrow> string \<Rightarrow> bool" where
  "MatchString re s = (matchPrefix re s \<noteq> [])"

definition namespaceRegex :: regexp where
  "namespaceRegex = Concat (Alt (Lit ''openshift'') (Lit ''kube'')) (Lit ''-'')"

section \<open>The upgrade detector\<close>

definition isUpgradingNow :: "common \<Rightarrow> Request \<Rightarrow> bool" where
  "isUpgradingNow env request =
     (ObservedVersion (Status (Instance request)) \<noteq> GetOperatorVersion env)"

section \<open>The reconcile functions\<close>

text \<open>
  The namespace override of a request: the test
  \<^verbatim>\<open>Spec.TektonPipelines != nil && Spec.TektonPipelines.Namespace != ""\<close> that guards
  every use of the override, with the namespace it guards.
\<close>

definition namespaceOverride :: "Request \<Rightarrow> string option" where
  "namespaceOverride request =
     (case TektonPipelines (SSP.Spec (Instance request)) of
        None \<Rightarrow> None
      | Some tp \<Rightarrow>
          if TektonPipelines.Namespace tp \<noteq> '''' then Some (TektonPipelines.Namespace tp)
          else None)"

text \<open>
  The loop of the pipelines' update function over \<^verbatim>\<open>foundPipeline.Spec.Params\<close>:
  the default of every parameter whose name starts with \<^verbatim>\<open>virtioContainer\<close> is
  replaced by a fresh string value holding the virtio image.
\<close>

primrec virtioDefaults :: "common \<Rightarrow> ParamSpec list \<Rightarrow> ParamSpec list" where
  "virtioDefaults env [] = []"
| "virtioDefaults env (param # params) =
     (if prefix ''virtioContainer'' (ParamSpec.Name param)
      then param\<lparr>Default := Some \<lparr>ParamValue.Type = ParamTypeString,
             StringVal = GetVirtioImage env, ArrayVal = [], ObjectVal = []\<rparr>\<rparr>
      else param) # virtioDefaults env params"

text \<open>
  The update function of the pipelines. The assignment
  \<^verbatim>\<open>foundPipeline.Spec = newPipeline.Spec\<close> copies the struct, so both objects then
  hold the same slice of parameters and the loop's writes show in both: the function
  returns the desired and the found object as it leaves them.
\<close>

fun pipelineUpdateFunc :: "common \<Rightarrow> Object \<Rightarrow> Object \<Rightarrow> (Object \<times> Object) option" where
  "pipelineUpdateFunc env (PipelineObj newPipeline) (PipelineObj foundPipeline) =
     (let spec = (Pipeline.Spec newPipeline)
                   \<lparr>Params := virtioDefaults env (Params (Pipeline.Spec newPipeline))\<rparr>
      in Some (PipelineObj (newPipeline\<lparr>Pipeline.Spec := spec\<rparr>),
               PipelineObj (foundPipeline\<lparr>Pipeline.Spec := spec\<rparr>)))"
| "pipelineUpdateFunc env newRes foundRes = None"

text \<open>
  The body of each closure up to its last statement: the writes through the pointer
  \<^verbatim>\<open>&xs[i]\<close> it captured, as the operand after them, and the builder on which the
  last statement calls \<^verbatim>\<open>Reconcile()\<close>. The factories capture indices below the
  length of their slice only.
\<close>

definition pipelineBuilder ::
  "common \<Rightarrow> nat \<Rightarrow> Request \<Rightarrow> tektonPipelines \<Rightarrow> tektonPipelines \<times> ReconcileBuilder" where
  "pipelineBuilder env i request t =
     (let p = pipelines t ! i;
          p = (case namespaceOverride request of
                 Some ns \<Rightarrow> p\<lparr>ObjectMeta.Namespace := ns\<rparr>
               | None \<Rightarrow> p)
      in (t\<lparr>pipelines := (pipelines t)[i := p]\<rparr>,
          \<lparr>ClusterResource = PipelineObj p,
           WithAppLabels = (operandName, operandComponent),
           UpdateFunc = Some (pipelineUpdateFunc env)\<rparr>))"

definition configMapBuilder ::
  "nat \<Rightarrow> Request \<Rightarrow> tektonPipelines \<Rightarrow> tektonPipelines \<times> ReconcileBuilder" where
  "configMapBuilder i request t =
     (let cm = configMaps t ! i;
          cm = (case namespaceOverride request of
                  Some ns \<Rightarrow> cm\<lparr>ObjectMeta.Namespace := ns\<rparr>
                | None \<Rightarrow> cm)
      in (t\<lparr>configMaps := (configMaps t)[i := cm]\<rparr>,
          \<lparr>ClusterResource = ConfigMapObj cm,
           WithAppLabels = (operandName, operandComponent),
           UpdateFunc = None\<rparr>))"

definition serviceAccountBuilder ::
  "nat \<Rightarrow> Request \<Rightarrow> tektonPipelines \<Rightarrow> tektonPipelines \<times> ReconcileBuilder" where
  "serviceAccountBuilder i request t =
     (let sa = serviceAccounts t ! i;
          namespace = ObjectMeta.Namespace (Instance request);
          sa = (if ObjectMeta.Namespace sa = ''''
                then sa\<lparr>ObjectMeta.Namespace := namespace\<rparr> else sa)
      in (t\<lparr>serviceAccounts := (serviceAccounts t)[i := sa]\<rparr>,
          \<lparr>ClusterResource = ServiceAccountObj sa,
           WithAppLabels = (operandName, operandComponent),
           UpdateFunc = None\<rparr>))"

definition clusterRoleBuilder ::
  "nat \<Rightarrow> Request \<Rightarrow> tektonPipelines \<Rightarrow> tektonPipelines \<times> ReconcileBuilder" where
  "clusterRoleBuilder i request t =
     (let cr = clusterRoles t ! i
      in (t,
          \<lparr>ClusterResource = ClusterRoleObj cr,
           WithAppLabels = (operandName, operandComponent),
           UpdateFunc = None\<rparr>))"

definition roleBindingBuilder ::
  "nat \<Rightarrow> Request \<Rightarrow> tektonPipelines \<Rightarrow> tektonPipelines \<times> ReconcileBuilder" where
  "roleBindingBuilder i request t =
     (let rb = roleBindings t ! i;
          namespace = ObjectMeta.Namespace (Instance request);
          rb = (if ObjectMeta.Namespace rb = ''''
                then rb\<lparr>ObjectMeta.Namespace := namespace\<rparr> else rb);
          rb = rb\<lparr>Subjects :=
                 map (\<lambda>subject. subject\<lparr>Subject.Namespace := namespace\<rparr>) (Subjects rb)\<rparr>
      in (t\<lparr>roleBindings := (roleBindings t)[i := rb]\<rparr>,
          \<lparr>ClusterResource = RoleBindingObj rb,
           WithAppLabels = (operandName, operandComponent),
           UpdateFunc = None\<rparr>))"

text \<open>
  A closure: its body, then \<^verbatim>\<open>Reconcile()\<close> of the builder, whose result and error
  it returns as they are.
\<close>

definition closure ::
  "'c CreateOrUpdate \<Rightarrow> (Request \<Rightarrow> tektonPipelines \<Rightarrow> tektonPipelines \<times> ReconcileBuilder)
     \<Rightarrow> 'c ReconcileFunc" where
  "closure gw body request w =
     (case body request (operand w) of
        (t, builder) \<Rightarrow>
          (case gw request builder (cluster w) of
             (res, c) \<Rightarrow> (res, w\<lparr>operand := t, cluster := c\<rparr>)))"

definition reconcileTektonPipelinesFuncs ::
  "common \<Rightarrow> 'c CreateOrUpdate \<Rightarrow> Pipeline list \<Rightarrow> 'c ReconcileFunc list" where
  "reconcileTektonPipelinesFuncs env gw ps =
     map (\<lambda>i. closure gw (pipelineBuilder env i)) [0..<length ps]"

definition reconcileConfigMapsFuncs ::
  "'c CreateOrUpdate \<Rightarrow> ConfigMap list \<Rightarrow> 'c ReconcileFunc list" where
  "reconcileConfigMapsFuncs gw cms =
     map (\<lambda>i. closure gw (configMapBuilder i)) [0..<length cms]"

text \<open>
  The loop of \<^verbatim>\<open>reconcileServiceAccountsFuncs\<close> over the indices of its slice, with
  its \<^verbatim>\<open>continue\<close>.
\<close>

primrec serviceAccountsLoop ::
  "'c CreateOrUpdate \<Rightarrow> Request \<Rightarrow> ServiceAccount list \<Rightarrow> nat list \<Rightarrow> 'c ReconcileFunc list" where
  "serviceAccountsLoop gw r sas [] = []"
| "serviceAccountsLoop gw r sas (i # indices) =
     (case namespaceOverride r of
        Some ns \<Rightarrow>
          if \<not> MatchString namespaceRegex ns \<and> ObjectMeta.Name (sas ! i) = ''pipeline''
          then serviceAccountsLoop gw r sas indices
          else closure gw (serviceAccountBuilder i) # serviceAccountsLoop gw r sas indices
      | None \<Rightarrow> closure gw (serviceAccountBuilder i) # serviceAccountsLoop gw r sas indices)"

definition reconcileServiceAccountsFuncs ::
  "'c CreateOrUpdate \<Rightarrow> Request \<Rightarrow> ServiceAccount list \<Rightarrow> 'c ReconcileFunc list" where
  "reconcileServiceAccountsFuncs gw r sas = serviceAccountsLoop gw r sas [0..<length sas]"

definition reconcileClusterRolesFuncs ::
  "'c CreateOrUpdate \<Rightarrow> ClusterRole list \<Rightarrow> 'c ReconcileFunc list" where
  "reconcileClusterRolesFuncs gw crs =
     map (\<lambda>i. closure gw (clusterRoleBuilder i)) [0..<length crs]"

definition reconcileRoleBindingsFuncs ::
  "'c CreateOrUpdate \<Rightarrow> RoleBinding list \<Rightarrow> 'c ReconcileFunc list" where
  "reconcileRoleBindingsFuncs gw rbs =
     map (\<lambda>i. closure gw (roleBindingBuilder i)) [0..<length rbs]"

section \<open>Reconcile\<close>

text \<open>
  Modelled from the spec: \<^verbatim>\<open>common.CollectResourceStatus\<close>, the reconciliation
  engine, which is not in this file. It executes the functions in order; the first
  error stops it and is returned without results; otherwise it returns one result
  per function, in order.
\<close>

fun CollectResourceStatus ::
  "Request \<Rightarrow> 'c ReconcileFunc list \<Rightarrow> 'c world \<Rightarrow> (error + ReconcileResult list) \<times> 'c world" where
  "CollectResourceStatus request [] w = (Inr [], w)"
| "CollectResourceStatus request (f # funcs) w =
     (case f request w of
        (Inl err, w') \<Rightarrow> (Inl err, w')
      | (Inr res, w') \<Rightarrow>
          (case CollectResourceStatus request funcs w' of
             (Inl err, w'') \<Rightarrow> (Inl err, w'')
           | (Inr results, w'') \<Rightarrow> (Inr (res # results), w'')))"

text \<open>The loop over the results at the end of \<^verbatim>\<open>Reconcile\<close>, on the logger.\<close>

primrec revertedLoop :: "bool \<Rightarrow> ReconcileResult list \<Rightarrow> LogEntry list \<Rightarrow> LogEntry list" where
  "revertedLoop upgradingNow [] lg = lg"
| "revertedLoop upgradingNow (r # rs) lg =
     revertedLoop upgradingNow rs
       (if \<not> upgradingNow \<and> OperationResult r = OperationResultUpdated
        then lg @ [\<lparr>V = 0, Info = ''Changes reverted in tekton pipeline: ''
                                   @ GetName (ReconcileResult.Resource r)\<rparr>]
        else lg)"

definition notDeployedMessage :: string where
  "notDeployedMessage =
     ''Tekton Pipelines resources were not deployed, because ''
     @ ''spec.featureGates.deployTektonTaskResources is set to false''"

text \<open>
  The Go pair \<^verbatim>\<open>(results, err)\<close> that \<^verbatim>\<open>Reconcile\<close> returns is a sum: \<open>Inl\<close> the
  error, returned with \<^verbatim>\<open>nil\<close> results, \<open>Inr\<close> the results.
\<close>

text \<open>The slice \<^verbatim>\<open>reconcileFunc\<close> that \<^verbatim>\<open>Reconcile\<close> appends to, kind after kind.\<close>

definition reconcileFunc ::
  "common \<Rightarrow> 'c CreateOrUpdate \<Rightarrow> Request \<Rightarrow> tektonPipelines \<Rightarrow> 'c ReconcileFunc list" where
  "reconcileFunc env gw request t =
     reconcileClusterRolesFuncs gw (clusterRoles t)
     @ reconcileTektonPipelinesFuncs env gw (pipelines t)
     @ reconcileConfigMapsFuncs gw (configMaps t)
     @ reconcileRoleBindingsFuncs gw (roleBindings t)
     @ reconcileServiceAccountsFuncs gw request (serviceAccounts t)"

definition Reconcile ::
  "common \<Rightarrow> 'c CreateOrUpdate \<Rightarrow> Request \<Rightarrow> 'c world
     \<Rightarrow> (error + ReconcileResult list) \<times> 'c world" where
  "Reconcile env gw request w =
     (if \<not> DeployTektonTaskResources (FeatureGates (SSP.Spec (Instance request)))
      then (Inr [], w\<lparr>logger := logger w @ [\<lparr>V = 1, Info = notDeployedMessage\<rparr>]\<rparr>)
      else if \<not> CrdExists (CrdList request) tektonCrd
      then (Inl (Errorf (''Tekton CRD '' @ tektonCrd @ '' does not exist'')), w)
      else
        case CollectResourceStatus request (reconcileFunc env gw request (operand w)) w of
          (Inl err, w') \<Rightarrow> (Inl err, w')
        | (Inr reconcileTektonBundleResults, w') \<Rightarrow>
            (Inr reconcileTektonBundleResults,
             w'\<lparr>logger := revertedLoop (isUpgradingNow env request)
                             reconcileTektonBundleResults (logger w')\<rparr>))"

section \<open>Cleanup\<close>

text \<open>
  Modelled from the spec: \<^verbatim>\<open>common.CleanupResult\<close>, declared outside this file. It
  records for one object whether its deletion succeeded, found the object already
  absent or failed.
\<close>

datatype DeleteOutcome = Deleted | AlreadyAbsent | DeleteFailed error

record CleanupResult =
  Resource :: Object
  Outcome :: DeleteOutcome

text \<open>
  The gateway's deletion of one object is a parameter \<open>del\<close>: any function from the
  request, the object and the cluster to an outcome and the cluster after the call.
\<close>

type_synonym 'c Delete = "Request \<Rightarrow> Object \<Rightarrow> 'c \<Rightarrow> DeleteOutcome \<times> 'c"

text \<open>
  Modelled from the spec: \<^verbatim>\<open>common.DeleteAll\<close>, the cleanup engine, which is not in
  this file. It issues a deletion for every object, in order, and records for each
  whether it succeeded, found the object absent or failed; a failed deletion does
  not keep it from attempting the rest and does not become its error.
\<close>

fun DeleteAll ::
  "'c Delete \<Rightarrow> Request \<Rightarrow> Object list \<Rightarrow> 'c \<Rightarrow> (error + CleanupResult list) \<times> 'c" where
  "DeleteAll del request [] c = (Inr [], c)"
| "DeleteAll del request (obj # objects) c =
     (case del request obj c of
        (outcome, c') \<Rightarrow>
          (case DeleteAll del request objects c' of
             (Inl err, c'') \<Rightarrow> (Inl err, c'')
           | (Inr results, c'') \<Rightarrow>
               (Inr (\<lparr>CleanupResult.Resource = obj, Outcome = outcome\<rparr> # results), c'')))"

text \<open>
  \<^verbatim>\<open>DeepCopy\<close> of a value is the value: the copy shares nothing with the operand, so
  the objects handed to \<^verbatim>\<open>DeleteAll\<close> are values and the operand is not among what
  \<^verbatim>\<open>DeleteAll\<close> can reach.
\<close>

definition DeepCopy :: "'a \<Rightarrow> 'a" where
  "DeepCopy x = x"

definition Cleanup ::
  "'c Delete \<Rightarrow> Request \<Rightarrow> 'c world \<Rightarrow> (error + CleanupResult list) \<times> 'c world" where
  "Cleanup del request w =
     (let t = operand w;
          objects = [];
          objects = objects @ map (\<lambda>p. PipelineObj (DeepCopy p)) (pipelines t);
          objects = objects @ map (\<lambda>cm. ConfigMapObj (DeepCopy cm)) (configMaps t);
          objects = objects @ map (\<lambda>rb. RoleBindingObj (DeepCopy rb)) (roleBindings t);
          objects = objects @ map (\<lambda>sa. ServiceAccountObj (DeepCopy sa)) (serviceAccounts t);
          objects = objects @ map (\<lambda>cr. ClusterRoleObj (DeepCopy cr)) (clusterRoles t)
      in case DeleteAll del request objects (cluster w) of
           (res, c) \<Rightarrow> (res, w\<lparr>cluster := c\<rparr>))"

section \<open>Example inputs\<close>

text \<open>
  A small bundle with one object of each kind, a request whose gate, override,
  recorded version and CRD list are chosen by its arguments, and a fake gateway
  that records what is submitted to it and reports every object as updated.
\<close>

definition exampleEnv :: common where
  "exampleEnv = \<lparr>GetOperatorVersion = ''1.3.0'', GetVirtioImage = ''registry/virtio:v2''\<rparr>"

definition exampleRequest :: "bool \<Rightarrow> string \<Rightarrow> string \<Rightarrow> bool \<Rightarrow> Request" where
  "exampleRequest gate ns observed crd =
     \<lparr>Instance =
        \<lparr>ObjectMeta.Name = ''ssp'', Namespace = ''kubevirt'', Labels = [],
         SSP.Spec = \<lparr>FeatureGates = \<lparr>DeployTektonTaskResources = gate\<rparr>,
                     TektonPipelines = Some \<lparr>TektonPipelines.Namespace = ns\<rparr>\<rparr>,
         Status = \<lparr>ObservedVersion = observed\<rparr>\<rparr>,
      CrdList = \<lparr>CrdExists = (\<lambda>name. crd \<and> name = ''tasks.tekton.dev'')\<rparr>\<rparr>"

definition examplePipeline :: Pipeline where
  "examplePipeline =
     \<lparr>ObjectMeta.Name = ''windows-efi-installer'', Namespace = ''kubevirt'', Labels = [],
      Pipeline.Spec =
        \<lparr>Description = ''installs windows'',
         Params =
           [\<lparr>ParamSpec.Name = ''virtioContainerImage'', Type = ParamTypeString,
             Description = ''virtio image'',
             Default = Some \<lparr>ParamValue.Type = ParamTypeString, StringVal = ''registry/virtio:v1'',
                             ArrayVal = [], ObjectVal = []\<rparr>\<rparr>,
            \<lparr>ParamSpec.Name = ''winImageDownloadURL'', Type = ParamTypeString,
             Description = ''download url'', Default = None\<rparr>],
         Tasks = [''create-vm'', ''wait-for-vmi-status''],
         Finally = [''cleanup-vm'']\<rparr>\<rparr>"


definition exampleConfigMap :: ConfigMap where
  "exampleConfigMap =
     \<lparr>ObjectMeta.Name = ''windows-efi-autounattend'', Namespace = ''kubevirt'', Labels = [],
      Data = [(''autounattend.xml'', ''<unattend/>'')]\<rparr>"

definition exampleRoleBinding :: RoleBinding where
  "exampleRoleBinding =
     \<lparr>ObjectMeta.Name = ''create-vm-task'', Namespace = '''', Labels = [],
      Subjects = [\<lparr>Subject.Kind = ''ServiceAccount'', APIGroup = '''',
                   Name = ''create-vm-task'', Namespace = ''default''\<rparr>],
      RoleRef = \<lparr>RoleRef.APIGroup = ''rbac.authorization.k8s.io'', Kind = ''ClusterRole'',
                 Name = ''create-vm-task''\<rparr>\<rparr>"

definition exampleServiceAccount :: "string \<Rightarrow> ServiceAccount" where
  "exampleServiceAccount name =
     \<lparr>ObjectMeta.Name = name, Namespace = '''', Labels = [], Secrets = []\<rparr>"

definition exampleClusterRole :: ClusterRole where
  "exampleClusterRole =
     \<lparr>ObjectMeta.Name = ''create-vm-task'', Namespace = '''', Labels = [],
      Rules = [\<lparr>Verbs = [''create''], APIGroups = [''kubevirt.io''],
                Resources = [''virtualmachines'']\<rparr>]\<rparr>"

definition exampleOperand :: tektonPipelines where
  "exampleOperand =
     \<lparr>pipelines = [examplePipeline],
      configMaps = [exampleConfigMap],
      roleBindings = [exampleRoleBinding],
      serviceAccounts = [exampleServiceAccount ''pipeline'',
                         exampleServiceAccount ''create-vm-task''],
      clusterRoles = [exampleClusterRole]\<rparr>"

definition fakeGateway :: "(Object list) CreateOrUpdate" where
  "fakeGateway request builder c =
     (Inr \<lparr>ReconcileResult.Resource = ClusterResource builder,
           OperationResult = OperationResultUpdated\<rparr>,
      c @ [ClusterResource builder])"

definition fakeDelete :: "(Object list) Delete" where
  "fakeDelete request obj c =
     (if GetName obj = ''pipeline'' then AlreadyAbsent else Deleted, c @ [obj])"

definition exampleWorld :: "(Object list) world" where
  "exampleWorld = \<lparr>operand = exampleOperand, cluster = [], logger = []\<rparr>"

definition configMapWorld :: "(Object list) world" where
  "configMapWorld =
     \<lparr>operand = \<lparr>pipelines = [], configMaps = [exampleConfigMap], roleBindings = [],
                  serviceAccounts = [], clusterRoles = []\<rparr>,
      cluster = [], logger = []\<rparr>"

section \<open>Properties\<close>

subsection \<open>The namespace pattern\<close>

lemma prefix_append_drop:
  "prefix (l @ c) s = (prefix l s \<and> prefix c (drop (length l) s))"
  by (metis append_eq_conv_conj prefix_def append.assoc)

lemma MatchString_literals:
  "MatchString (Concat (Alt (Lit a) (Lit b)) (Lit c)) s =
     (prefix (a @ c) s \<or> prefix (b @ c) s)"
  by (auto simp: MatchString_def prefix_append_drop)

lemma MatchString_namespaceRegex:
  "MatchString namespaceRegex s = (prefix ''openshift-'' s \<or> prefix ''kube-'' s)"
  unfolding namespaceRegex_def MatchString_literals by simp

subsection \<open>The upgrade detector\<close>

text \<open>
  C6. \<open>isUpgradingNow\<close> is a function of the recorded version and the running
  operator version alone, with a boolean and nothing else as its value: it is true
  exactly when the two differ. So recorded 1.2.0 against running 1.3.0 is an upgrade,
  1.3.0 against 1.3.0 is not, and an empty recorded version is an upgrade against
  1.3.0, as against every running version that is not itself empty.
\<close>

theorem isUpgradingNow_versions_differ:
  "isUpgradingNow env request
     = (ObservedVersion (Status (Instance request)) \<noteq> GetOperatorVersion env)
   \<and> isUpgradingNow (env\<lparr>GetOperatorVersion := ''1.3.0''\<rparr>)
        (request\<lparr>Instance := (Instance request)\<lparr>Status := \<lparr>ObservedVersion = ''1.2.0''\<rparr>\<rparr>\<rparr>)
   \<and> \<not> isUpgradingNow (env\<lparr>GetOperatorVersion := ''1.3.0''\<rparr>)
        (request\<lparr>Instance := (Instance request)\<lparr>Status := \<lparr>ObservedVersion = ''1.3.0''\<rparr>\<rparr>\<rparr>)
   \<and> isUpgradingNow (env\<lparr>GetOperatorVersion := ''1.3.0''\<rparr>)
        (request\<lparr>Instance := (Instance request)\<lparr>Status := \<lparr>ObservedVersion = ''''\<rparr>\<rparr>\<rparr>)
   \<and> isUpgradingNow env
        (request\<lparr>Instance := (Instance request)\<lparr>Status := \<lparr>ObservedVersion = ''''\<rparr>\<rparr>\<rparr>)
       = (GetOperatorVersion env \<noteq> '''')"
  by (auto simp: isUpgradingNow_def)

subsection \<open>The gate and the precondition of Reconcile\<close>

text \<open>
  C4. With the feature gate false, \<open>Reconcile\<close> returns the empty result list and no
  error whatever the bundle holds and whatever the gateway would do: the cluster and
  the stored objects are as before, and the logger has received one entry more, the
  message that the resources were not deployed, at verbosity 1.
\<close>

theorem Reconcile_gate_off:
  assumes "\<not> DeployTektonTaskResources (FeatureGates (SSP.Spec (Instance request)))"
  shows "Reconcile env gw request w
           = (Inr [], w\<lparr>logger := logger w @ [\<lparr>V = 1, Info = notDeployedMessage\<rparr>]\<rparr>)
         \<and> cluster (snd (Reconcile env gw request w)) = cluster w
         \<and> operand (snd (Reconcile env gw request w)) = operand w"
  using assms by (simp add: Reconcile_def)

theorem Reconcile_gate_off_witness:
  "\<not> DeployTektonTaskResources
       (FeatureGates (SSP.Spec (Instance (exampleRequest False ''myapp'' ''1.3.0'' True))))
   \<and> Reconcile exampleEnv fakeGateway (exampleRequest False ''myapp'' ''1.3.0'' True) exampleWorld
       = (Inr [], \<lparr>operand = exampleOperand, cluster = [],
                   logger = [\<lparr>V = 1, Info = notDeployedMessage\<rparr>]\<rparr>)"
  using Reconcile_gate_off
          [of "exampleRequest False ''myapp'' ''1.3.0'' True" exampleEnv fakeGateway exampleWorld]
  by (simp add: exampleRequest_def exampleWorld_def)

text \<open>
  C5. With the feature gate true and the CRD \<^verbatim>\<open>tasks.tekton.dev\<close> not in the cluster,
  \<open>Reconcile\<close> returns the error that names the CRD and no results, whatever the
  gateway would do: the cluster, the stored objects and the logger are as before.
\<close>

theorem Reconcile_crd_missing:
  assumes "DeployTektonTaskResources (FeatureGates (SSP.Spec (Instance request)))"
      and "\<not> CrdExists (CrdList request) ''tasks.tekton.dev''"
  shows "Reconcile env gw request w
           = (Inl (Errorf ''Tekton CRD tasks.tekton.dev does not exist''), w)"
  using assms by (simp add: Reconcile_def tektonCrd_def)

theorem Reconcile_crd_missing_witness:
  "DeployTektonTaskResources
     (FeatureGates (SSP.Spec (Instance (exampleRequest True ''myapp'' ''1.3.0'' False))))
   \<and> \<not> CrdExists (CrdList (exampleRequest True ''myapp'' ''1.3.0'' False)) ''tasks.tekton.dev''
   \<and> Reconcile exampleEnv fakeGateway (exampleRequest True ''myapp'' ''1.3.0'' False) exampleWorld
       = (Inl (Errorf ''Tekton CRD tasks.tekton.dev does not exist''), exampleWorld)"
  using Reconcile_crd_missing
          [of "exampleRequest True ''myapp'' ''1.3.0'' False" exampleEnv fakeGateway exampleWorld]
  by (simp add: exampleRequest_def)

text \<open>
  C10. The gate is tested before the CRD: with the gate false \<open>Reconcile\<close> returns no
  results and no error also when the CRD is absent, and whenever \<open>Reconcile\<close> returns
  an error the gate is true.
\<close>

theorem Reconcile_gate_before_crd:
  "(\<not> DeployTektonTaskResources (FeatureGates (SSP.Spec (Instance request)))
      \<longrightarrow> fst (Reconcile env gw request w) = Inr [])
   \<and> (fst (Reconcile env gw request w) = Inl err
      \<longrightarrow> DeployTektonTaskResources (FeatureGates (SSP.Spec (Instance request))))"
  by (auto simp: Reconcile_def)

theorem Reconcile_gate_before_crd_witness:
  "\<not> DeployTektonTaskResources
       (FeatureGates (SSP.Spec (Instance (exampleRequest False '''' ''1.3.0'' False))))
   \<and> \<not> CrdExists (CrdList (exampleRequest False '''' ''1.3.0'' False)) ''tasks.tekton.dev''
   \<and> fst (Reconcile exampleEnv fakeGateway (exampleRequest False '''' ''1.3.0'' False) exampleWorld)
       = Inr []
   \<and> fst (Reconcile exampleEnv fakeGateway (exampleRequest True '''' ''1.3.0'' False) exampleWorld)
       = Inl (Errorf ''Tekton CRD tasks.tekton.dev does not exist'')
   \<and> DeployTektonTaskResources
       (FeatureGates (SSP.Spec (Instance (exampleRequest True '''' ''1.3.0'' False))))"
proof -
  have err: "fst (Reconcile exampleEnv fakeGateway (exampleRequest True '''' ''1.3.0'' False)
                    exampleWorld)
               = Inl (Errorf ''Tekton CRD tasks.tekton.dev does not exist'')"
    by (simp add: Reconcile_def exampleRequest_def tektonCrd_def)
  show ?thesis
    using err
      Reconcile_gate_before_crd
        [of "exampleRequest False '''' ''1.3.0'' False" exampleEnv fakeGateway exampleWorld]
      Reconcile_gate_before_crd
        [of "exampleRequest True '''' ''1.3.0'' False" exampleEnv fakeGateway exampleWorld
            "Errorf ''Tekton CRD tasks.tekton.dev does not exist''"]
    by (simp add: exampleRequest_def)
qed

subsection \<open>The pipelines' update function\<close>




subsection \<open>The service accounts\<close>

lemma serviceAccountsLoop_filter:
  "serviceAccountsLoop gw r sas indices =
     map (\<lambda>i. closure gw (serviceAccountBuilder i))
       (filter (\<lambda>i. \<not> (\<exists>ns. namespaceOverride r = Some ns
                          \<and> \<not> MatchString namespaceRegex ns
                          \<and> ObjectMeta.Name (sas ! i) = ''pipeline'')) indices)"
  by (induction indices) (auto split: option.splits)

lemmas example_defs =
  exampleEnv_def exampleRequest_def examplePipeline_def exampleConfigMap_def
  exampleRoleBinding_def exampleServiceAccount_def exampleClusterRole_def
  exampleOperand_def exampleWorld_def fakeGateway_def

lemmas reconcile_defs =
  Reconcile_def reconcileFunc_def reconcileClusterRolesFuncs_def
  reconcileTektonPipelinesFuncs_def reconcileConfigMapsFuncs_def
  reconcileRoleBindingsFuncs_def reconcileServiceAccountsFuncs_def closure_def
  pipelineBuilder_def configMapBuilder_def serviceAccountBuilder_def clusterRoleBuilder_def
  roleBindingBuilder_def namespaceOverride_def tektonCrd_def operandName_def
  operandComponent_def

subsection \<open>The engine and the stored objects\<close>











lemma reconcileFunc_bodies:
  "reconcileFunc env gw request t =
     map (closure gw)
       (map clusterRoleBuilder [0..<length (clusterRoles t)]
        @ map (pipelineBuilder env) [0..<length (pipelines t)]
        @ map configMapBuilder [0..<length (configMaps t)]
        @ map roleBindingBuilder [0..<length (roleBindings t)]
        @ map serviceAccountBuilder
            (filter (\<lambda>i. \<not> (\<exists>ns. namespaceOverride request = Some ns
                               \<and> \<not> MatchString namespaceRegex ns
                               \<and> ObjectMeta.Name (serviceAccounts t ! i) = ''pipeline''))
               [0..<length (serviceAccounts t)]))"
  by (simp add: reconcileFunc_def reconcileClusterRolesFuncs_def
        reconcileTektonPipelinesFuncs_def reconcileConfigMapsFuncs_def
        reconcileRoleBindingsFuncs_def reconcileServiceAccountsFuncs_def
        serviceAccountsLoop_filter comp_def)




lemma Reconcile_results_operand:
  assumes "DeployTektonTaskResources (FeatureGates (SSP.Spec (Instance request)))"
      and "fst (Reconcile env gw request w) = Inr results"
  shows "\<exists>w'. CollectResourceStatus request (reconcileFunc env gw request (operand w)) w
                 = (Inr results, w')
              \<and> operand (snd (Reconcile env gw request w)) = operand w'"
  using assms by (auto simp: Reconcile_def split: if_splits prod.splits sum.splits)




subsection \<open>The diagnostic of reverted changes\<close>

lemma revertedLoop_append:
  "revertedLoop upgradingNow results lg =
     lg @ (if upgradingNow then []
           else map (\<lambda>r. \<lparr>V = 0, Info = ''Changes reverted in tekton pipeline: ''
                                        @ GetName (ReconcileResult.Resource r)\<rparr>)
                  (filter (\<lambda>r. OperationResult r = OperationResultUpdated) results))"
  by (induction results arbitrary: lg) auto

text \<open>
  C7. When the engine returns results, \<open>Reconcile\<close> returns exactly these results and
  no error, with the world as the engine left it but for the logger: if the request
  is not in an upgrade, the logger has received, for every result that is
  \<open>Updated\<close> and in their order, one entry naming the resource; in an upgrade it has
  received none.
\<close>

theorem Reconcile_reverted_diagnostic:
  assumes "DeployTektonTaskResources (FeatureGates (SSP.Spec (Instance request)))"
      and "CrdExists (CrdList request) tektonCrd"
      and "CollectResourceStatus request (reconcileFunc env gw request (operand w)) w
             = (Inr results, w')"
  shows "Reconcile env gw request w
           = (Inr results,
              w'\<lparr>logger := logger w' @
                   (if isUpgradingNow env request then []
                    else map (\<lambda>r. \<lparr>V = 0, Info = ''Changes reverted in tekton pipeline: ''
                                                 @ GetName (ReconcileResult.Resource r)\<rparr>)
                           (filter (\<lambda>r. OperationResult r = OperationResultUpdated) results))\<rparr>)"
  using assms by (simp add: Reconcile_def revertedLoop_append)

lemma configMapWorld_run:
  "CollectResourceStatus (exampleRequest True '''' observed True)
     (reconcileFunc exampleEnv fakeGateway (exampleRequest True '''' observed True)
        (operand configMapWorld))
     configMapWorld
     = (Inr [\<lparr>ReconcileResult.Resource = ConfigMapObj exampleConfigMap,
              OperationResult = OperationResultUpdated\<rparr>],
        configMapWorld\<lparr>cluster := [ConfigMapObj exampleConfigMap]\<rparr>)"
  by (simp add: reconcile_defs configMapWorld_def exampleRequest_def fakeGateway_def)

theorem Reconcile_reverted_diagnostic_witness:
  "DeployTektonTaskResources
     (FeatureGates (SSP.Spec (Instance (exampleRequest True '''' ''1.3.0'' True))))
   \<and> CrdExists (CrdList (exampleRequest True '''' ''1.3.0'' True)) tektonCrd
   \<and> CollectResourceStatus (exampleRequest True '''' ''1.3.0'' True)
        (reconcileFunc exampleEnv fakeGateway (exampleRequest True '''' ''1.3.0'' True)
           (operand configMapWorld))
        configMapWorld
       = (Inr [\<lparr>ReconcileResult.Resource = ConfigMapObj exampleConfigMap,
                OperationResult = OperationResultUpdated\<rparr>],
          configMapWorld\<lparr>cluster := [ConfigMapObj exampleConfigMap]\<rparr>)
   \<and> Reconcile exampleEnv fakeGateway (exampleRequest True '''' ''1.3.0'' True) configMapWorld
       = (Inr [\<lparr>ReconcileResult.Resource = ConfigMapObj exampleConfigMap,
                OperationResult = OperationResultUpdated\<rparr>],
          configMapWorld
            \<lparr>cluster := [ConfigMapObj exampleConfigMap],
             logger := [\<lparr>V = 0, Info = ''Changes reverted in tekton pipeline: ''
                                       @ ''windows-efi-autounattend''\<rparr>]\<rparr>)
   \<and> Reconcile exampleEnv fakeGateway (exampleRequest True '''' ''1.2.0'' True) configMapWorld
       = (Inr [\<lparr>ReconcileResult.Resource = ConfigMapObj exampleConfigMap,
                OperationResult = OperationResultUpdated\<rparr>],
          configMapWorld\<lparr>cluster := [ConfigMapObj exampleConfigMap], logger := []\<rparr>)"
proof -
  have gate: "DeployTektonTaskResources
                (FeatureGates (SSP.Spec (Instance (exampleRequest True '''' observed True))))"
    for observed
    by (simp add: exampleRequest_def)
  have crd: "CrdExists (CrdList (exampleRequest True '''' observed True)) tektonCrd"
    for observed
    by (simp add: exampleRequest_def tektonCrd_def)
  have same: "\<not> isUpgradingNow exampleEnv (exampleRequest True '''' ''1.3.0'' True)"
    by (simp add: isUpgradingNow_def exampleEnv_def exampleRequest_def)
  have differ: "isUpgradingNow exampleEnv (exampleRequest True '''' ''1.2.0'' True)"
    by (simp add: isUpgradingNow_def exampleEnv_def exampleRequest_def)
  show ?thesis
    using Reconcile_reverted_diagnostic [OF gate crd configMapWorld_run, of "''1.3.0''"]
          Reconcile_reverted_diagnostic [OF gate crd configMapWorld_run, of "''1.2.0''"]
          gate [of "''1.3.0''"] crd [of "''1.3.0''"] configMapWorld_run [of "''1.3.0''"]
    by (simp add: same differ configMapWorld_def exampleConfigMap_def)
qed

subsection \<open>A pass against the fake gateway\<close>

lemma example_submitted:
  "Reconcile exampleEnv fakeGateway (exampleRequest True ''myapp'' ''1.2.0'' True) exampleWorld
     = (Inr (map (\<lambda>obj. \<lparr>ReconcileResult.Resource = obj,
                           OperationResult = OperationResultUpdated\<rparr>)
               [ClusterRoleObj exampleClusterRole,
                PipelineObj (examplePipeline\<lparr>ObjectMeta.Namespace := ''myapp''\<rparr>),
                ConfigMapObj (exampleConfigMap\<lparr>ObjectMeta.Namespace := ''myapp''\<rparr>),
                RoleBindingObj
                  (exampleRoleBinding
                     \<lparr>ObjectMeta.Namespace := ''kubevirt'',
                      Subjects := [\<lparr>Subject.Kind = ''ServiceAccount'', APIGroup = '''',
                                   Name = ''create-vm-task'', Namespace = ''kubevirt''\<rparr>]\<rparr>),
                ServiceAccountObj
                  ((exampleServiceAccount ''create-vm-task'')
                     \<lparr>ObjectMeta.Namespace := ''kubevirt''\<rparr>)]),
        \<lparr>operand =
           \<lparr>pipelines = [examplePipeline\<lparr>ObjectMeta.Namespace := ''myapp''\<rparr>],
            configMaps = [exampleConfigMap\<lparr>ObjectMeta.Namespace := ''myapp''\<rparr>],
            roleBindings =
              [exampleRoleBinding
                 \<lparr>ObjectMeta.Namespace := ''kubevirt'',
                  Subjects := [\<lparr>Subject.Kind = ''ServiceAccount'', APIGroup = '''',
                               Name = ''create-vm-task'', Namespace = ''kubevirt''\<rparr>]\<rparr>],
            serviceAccounts =
              [exampleServiceAccount ''pipeline'',
               (exampleServiceAccount ''create-vm-task'')
                 \<lparr>ObjectMeta.Namespace := ''kubevirt''\<rparr>],
            clusterRoles = [exampleClusterRole]\<rparr>,
         cluster =
           [ClusterRoleObj exampleClusterRole,
            PipelineObj (examplePipeline\<lparr>ObjectMeta.Namespace := ''myapp''\<rparr>),
            ConfigMapObj (exampleConfigMap\<lparr>ObjectMeta.Namespace := ''myapp''\<rparr>),
            RoleBindingObj
              (exampleRoleBinding
                 \<lparr>ObjectMeta.Namespace := ''kubevirt'',
                  Subjects := [\<lparr>Subject.Kind = ''ServiceAccount'', APIGroup = '''',
                               Name = ''create-vm-task'', Namespace = ''kubevirt''\<rparr>]\<rparr>),
            ServiceAccountObj
              ((exampleServiceAccount ''create-vm-task'')
                 \<lparr>ObjectMeta.Namespace := ''kubevirt''\<rparr>)],
         logger = []\<rparr>)"
  by (simp add: reconcile_defs serviceAccountsLoop_filter MatchString_namespaceRegex
        isUpgradingNow_def exampleEnv_def exampleRequest_def exampleWorld_def
        exampleOperand_def exampleRoleBinding_def exampleServiceAccount_def fakeGateway_def
        upt_rec Let_def)

subsection \<open>The skip rule of the service accounts\<close>

lemma CollectResourceStatus_length:
  "CollectResourceStatus request funcs w = (Inr results, w') \<Longrightarrow>
   length results = length funcs"
proof (induction funcs arbitrary: w results)
  case Nil
  then show ?case by simp
next
  case (Cons f funcs)
  then show ?case
    by (auto split: prod.splits sum.splits)
qed

lemma length_filter_indices:
  "length (filter (\<lambda>k. keep (sas ! k)) [0..<length sas]) = length (filter keep sas)"
proof -
  have "length (filter keep (map (nth sas) [0..<length sas]))
          = length (filter (keep \<circ> nth sas) [0..<length sas])"
    by (simp add: filter_map)
  then show ?thesis
    by (simp add: map_nth comp_def)
qed

text \<open>
  C2. \<open>reconcileServiceAccountsFuncs\<close> produces, in the order of the slice, one
  function for every service account except those for which an override is set, the
  override does not match the pattern and the name is \<^verbatim>\<open>pipeline\<close>: for these it
  produces none, so nothing is submitted for them, and a pass that returns results
  returns one for every cluster role, pipeline, config map and role binding and one
  for every service account that is not skipped. The pattern matches exactly the
  namespaces that start with \<^verbatim>\<open>openshift-\<close> or \<^verbatim>\<open>kube-\<close>.
\<close>

theorem reconcileServiceAccountsFuncs_skip_rule:
  "reconcileServiceAccountsFuncs gw r sas =
     map (\<lambda>i. closure gw (serviceAccountBuilder i))
       (filter (\<lambda>i. \<not> (\<exists>ns. namespaceOverride r = Some ns
                          \<and> \<not> MatchString namespaceRegex ns
                          \<and> ObjectMeta.Name (sas ! i) = ''pipeline''))
          [0..<length sas])
   \<and> MatchString namespaceRegex namespace
       = (prefix ''openshift-'' namespace \<or> prefix ''kube-'' namespace)
   \<and> (DeployTektonTaskResources (FeatureGates (SSP.Spec (Instance r)))
        \<and> fst (Reconcile env gw r w) = Inr results
      \<longrightarrow> length results
            = length (clusterRoles (operand w)) + length (pipelines (operand w))
              + length (configMaps (operand w)) + length (roleBindings (operand w))
              + length (filter (\<lambda>sa. \<not> (\<exists>ns. namespaceOverride r = Some ns
                                            \<and> \<not> MatchString namespaceRegex ns
                                            \<and> ObjectMeta.Name sa = ''pipeline''))
                          (serviceAccounts (operand w))))"
proof (intro conjI impI)
  show "reconcileServiceAccountsFuncs gw r sas =
     map (\<lambda>i. closure gw (serviceAccountBuilder i))
       (filter (\<lambda>i. \<not> (\<exists>ns. namespaceOverride r = Some ns
                          \<and> \<not> MatchString namespaceRegex ns
                          \<and> ObjectMeta.Name (sas ! i) = ''pipeline''))
          [0..<length sas])"
    by (simp add: reconcileServiceAccountsFuncs_def serviceAccountsLoop_filter)
  show "MatchString namespaceRegex namespace
       = (prefix ''openshift-'' namespace \<or> prefix ''kube-'' namespace)"
    by (rule MatchString_namespaceRegex)
next
  let ?skip = "\<lambda>sa. \<exists>ns. namespaceOverride r = Some ns
                        \<and> \<not> MatchString namespaceRegex ns
                        \<and> ObjectMeta.Name sa = ''pipeline''"
  assume "DeployTektonTaskResources (FeatureGates (SSP.Spec (Instance r)))
            \<and> fst (Reconcile env gw r w) = Inr results"
  then obtain w' where
    "CollectResourceStatus r (reconcileFunc env gw r (operand w)) w = (Inr results, w')"
    using Reconcile_results_operand by blast
  then have "length results = length (reconcileFunc env gw r (operand w))"
    by (rule CollectResourceStatus_length)
  also have "\<dots> = length (clusterRoles (operand w)) + length (pipelines (operand w))
              + length (configMaps (operand w)) + length (roleBindings (operand w))
              + length (filter (\<lambda>i. \<not> ?skip (serviceAccounts (operand w) ! i))
                          [0..<length (serviceAccounts (operand w))])"
    by (simp add: reconcileFunc_bodies)
  also have "length (filter (\<lambda>i. \<not> ?skip (serviceAccounts (operand w) ! i))
                       [0..<length (serviceAccounts (operand w))])
               = length (filter (\<lambda>sa. \<not> ?skip sa) (serviceAccounts (operand w)))"
    by (rule length_filter_indices)
  finally show "length results
            = length (clusterRoles (operand w)) + length (pipelines (operand w))
              + length (configMaps (operand w)) + length (roleBindings (operand w))
              + length (filter (\<lambda>sa. \<not> ?skip sa) (serviceAccounts (operand w)))" .
qed

theorem reconcileServiceAccountsFuncs_skip_rule_witness:
  "reconcileServiceAccountsFuncs fakeGateway (exampleRequest True ''myapp'' ''1.2.0'' True)
       (serviceAccounts exampleOperand)
     = [closure fakeGateway (serviceAccountBuilder 1)]
   \<and> reconcileServiceAccountsFuncs fakeGateway (exampleRequest True ''openshift-myapp'' ''1.2.0'' True)
       (serviceAccounts exampleOperand)
     = [closure fakeGateway (serviceAccountBuilder 0), closure fakeGateway (serviceAccountBuilder 1)]
   \<and> reconcileServiceAccountsFuncs fakeGateway (exampleRequest True '''' ''1.2.0'' True)
       (serviceAccounts exampleOperand)
     = [closure fakeGateway (serviceAccountBuilder 0), closure fakeGateway (serviceAccountBuilder 1)]
   \<and> \<not> MatchString namespaceRegex ''myapp''
   \<and> MatchString namespaceRegex ''openshift-myapp''
   \<and> DeployTektonTaskResources
       (FeatureGates (SSP.Spec (Instance (exampleRequest True ''myapp'' ''1.2.0'' True))))
   \<and> map_sum id (map (\<lambda>r. GetName (ReconcileResult.Resource r)))
         (fst (Reconcile exampleEnv fakeGateway
                 (exampleRequest True ''myapp'' ''1.2.0'' True) exampleWorld))
       = Inr [''create-vm-task'', ''windows-efi-installer'', ''windows-efi-autounattend'',
              ''create-vm-task'', ''create-vm-task'']
   \<and> map GetName
         (cluster (snd (Reconcile exampleEnv fakeGateway
                          (exampleRequest True ''myapp'' ''1.2.0'' True) exampleWorld)))
       = [''create-vm-task'', ''windows-efi-installer'', ''windows-efi-autounattend'',
          ''create-vm-task'', ''create-vm-task'']"
proof -
  let ?request = "exampleRequest True ''myapp'' ''1.2.0'' True"
  let ?results = "map (\<lambda>obj. \<lparr>ReconcileResult.Resource = obj,
                                 OperationResult = OperationResultUpdated\<rparr>)
               [ClusterRoleObj exampleClusterRole,
                PipelineObj (examplePipeline\<lparr>ObjectMeta.Namespace := ''myapp''\<rparr>),
                ConfigMapObj (exampleConfigMap\<lparr>ObjectMeta.Namespace := ''myapp''\<rparr>),
                RoleBindingObj
                  (exampleRoleBinding
                     \<lparr>ObjectMeta.Namespace := ''kubevirt'',
                      Subjects := [\<lparr>Subject.Kind = ''ServiceAccount'', APIGroup = '''',
                                   Name = ''create-vm-task'', Namespace = ''kubevirt''\<rparr>]\<rparr>),
                ServiceAccountObj
                  ((exampleServiceAccount ''create-vm-task'')
                     \<lparr>ObjectMeta.Namespace := ''kubevirt''\<rparr>)]"
  have gate: "DeployTektonTaskResources (FeatureGates (SSP.Spec (Instance ?request)))"
    by (simp add: exampleRequest_def)
  have results: "fst (Reconcile exampleEnv fakeGateway ?request exampleWorld) = Inr ?results"
    by (simp only: example_submitted fst_conv)
  note rule = reconcileServiceAccountsFuncs_skip_rule
            [where gw = fakeGateway and r = ?request and sas = "serviceAccounts exampleOperand"
               and namespace = "''myapp''" and env = exampleEnv and w = exampleWorld
               and results = ?results]
  have override: "namespaceOverride ?request = Some ''myapp''"
    by (simp add: namespaceOverride_def exampleRequest_def)
  have nomatch: "\<not> MatchString namespaceRegex ''myapp''"
    using rule [THEN conjunct2, THEN conjunct1] by simp
  have produced:
    "reconcileServiceAccountsFuncs fakeGateway ?request (serviceAccounts exampleOperand)
       = [closure fakeGateway (serviceAccountBuilder 1)]"
    using rule [THEN conjunct1]
    by (simp add: override nomatch exampleOperand_def exampleServiceAccount_def upt_rec)
  have "length ?results
          = length (clusterRoles (operand exampleWorld)) + length (pipelines (operand exampleWorld))
            + length (configMaps (operand exampleWorld))
            + length (roleBindings (operand exampleWorld))
            + length (filter (\<lambda>sa. \<not> (\<exists>ns. namespaceOverride ?request = Some ns
                                          \<and> \<not> MatchString namespaceRegex ns
                                          \<and> ObjectMeta.Name sa = ''pipeline''))
                        (serviceAccounts (operand exampleWorld)))"
    using rule [THEN conjunct2, THEN conjunct2] gate results by blast
  then have counted: "length ?results = 1 + 1 + 1 + 1 + (1::nat)"
    by (simp add: override nomatch exampleWorld_def exampleOperand_def exampleServiceAccount_def)
  have funcs:
    "reconcileServiceAccountsFuncs fakeGateway ?request (serviceAccounts exampleOperand)
       = [closure fakeGateway (serviceAccountBuilder 1)]
     \<and> \<not> MatchString namespaceRegex ''myapp''"
    using produced nomatch by simp
  have others:
    "reconcileServiceAccountsFuncs fakeGateway
         (exampleRequest True ''openshift-myapp'' ''1.2.0'' True) (serviceAccounts exampleOperand)
       = [closure fakeGateway (serviceAccountBuilder 0),
          closure fakeGateway (serviceAccountBuilder 1)]
     \<and> reconcileServiceAccountsFuncs fakeGateway (exampleRequest True '''' ''1.2.0'' True)
         (serviceAccounts exampleOperand)
       = [closure fakeGateway (serviceAccountBuilder 0),
          closure fakeGateway (serviceAccountBuilder 1)]
     \<and> MatchString namespaceRegex ''openshift-myapp''"
    by (simp add: reconcileServiceAccountsFuncs_def example_defs namespaceOverride_def
          MatchString_namespaceRegex upt_rec)
  have run:
    "map_sum id (map (\<lambda>r. GetName (ReconcileResult.Resource r)))
         (fst (Reconcile exampleEnv fakeGateway ?request exampleWorld))
       = Inr [''create-vm-task'', ''windows-efi-installer'', ''windows-efi-autounattend'',
              ''create-vm-task'', ''create-vm-task'']
     \<and> map GetName (cluster (snd (Reconcile exampleEnv fakeGateway ?request exampleWorld)))
       = [''create-vm-task'', ''windows-efi-installer'', ''windows-efi-autounattend'',
          ''create-vm-task'', ''create-vm-task'']"
    unfolding example_submitted
    by (simp add: exampleClusterRole_def examplePipeline_def exampleConfigMap_def
          exampleRoleBinding_def exampleServiceAccount_def)
  from funcs others run gate counted show ?thesis by simp
qed

subsection \<open>What is submitted under an override\<close>

text \<open>
  C8. Under an override, the function produced for each pipeline and each config
  map submits the object with the override as its namespace. The function produced
  for each role binding submits it with its own namespace, or with the namespace of
  the request's instance where its own is empty, never with the override, and with
  the namespace of every subject set to the namespace of the request's instance.
\<close>

theorem override_submitted:
  assumes "namespaceOverride request = Some ns"
  shows "(i < length (pipelines t) \<longrightarrow>
            reconcileTektonPipelinesFuncs env gw (pipelines t) ! i
              = closure gw (pipelineBuilder env i)
            \<and> ClusterResource (snd (pipelineBuilder env i request t))
              = PipelineObj ((pipelines t ! i)\<lparr>ObjectMeta.Namespace := ns\<rparr>))
       \<and> (i < length (configMaps t) \<longrightarrow>
            reconcileConfigMapsFuncs gw (configMaps t) ! i = closure gw (configMapBuilder i)
            \<and> ClusterResource (snd (configMapBuilder i request t))
              = ConfigMapObj ((configMaps t ! i)\<lparr>ObjectMeta.Namespace := ns\<rparr>))
       \<and> (i < length (roleBindings t) \<longrightarrow>
            reconcileRoleBindingsFuncs gw (roleBindings t) ! i
              = closure gw (roleBindingBuilder i)
            \<and> (\<exists>rb. ClusterResource (snd (roleBindingBuilder i request t)) = RoleBindingObj rb
                  \<and> ObjectMeta.Namespace rb
                      = (if ObjectMeta.Namespace (roleBindings t ! i) = ''''
                         then ObjectMeta.Namespace (Instance request)
                         else ObjectMeta.Namespace (roleBindings t ! i))
                  \<and> length (Subjects rb) = length (Subjects (roleBindings t ! i))
                  \<and> (\<forall>subject \<in> set (Subjects rb).
                         Subject.Namespace subject = ObjectMeta.Namespace (Instance request))))"
  using assms
  by (simp add: reconcileTektonPipelinesFuncs_def reconcileConfigMapsFuncs_def
        reconcileRoleBindingsFuncs_def pipelineBuilder_def configMapBuilder_def
        roleBindingBuilder_def Let_def)

theorem override_submitted_witness:
  "namespaceOverride (exampleRequest True ''myapp'' ''1.2.0'' True) = Some ''myapp''
   \<and> ObjectMeta.Namespace (Instance (exampleRequest True ''myapp'' ''1.2.0'' True)) = ''kubevirt''
   \<and> ClusterResource
        (snd (pipelineBuilder exampleEnv 0 (exampleRequest True ''myapp'' ''1.2.0'' True)
                exampleOperand))
       = PipelineObj (examplePipeline\<lparr>ObjectMeta.Namespace := ''myapp''\<rparr>)
   \<and> ClusterResource
        (snd (configMapBuilder 0 (exampleRequest True ''myapp'' ''1.2.0'' True) exampleOperand))
       = ConfigMapObj (exampleConfigMap\<lparr>ObjectMeta.Namespace := ''myapp''\<rparr>)
   \<and> ClusterResource
        (snd (roleBindingBuilder 0 (exampleRequest True ''myapp'' ''1.2.0'' True) exampleOperand))
       = RoleBindingObj
           (exampleRoleBinding
              \<lparr>ObjectMeta.Namespace := ''kubevirt'',
               Subjects := [\<lparr>Subject.Kind = ''ServiceAccount'', APIGroup = '''',
                            Name = ''create-vm-task'', Namespace = ''kubevirt''\<rparr>]\<rparr>)
   \<and> cluster (snd (Reconcile exampleEnv fakeGateway
                      (exampleRequest True ''myapp'' ''1.2.0'' True) exampleWorld))
       = [ClusterRoleObj exampleClusterRole,
          PipelineObj (examplePipeline\<lparr>ObjectMeta.Namespace := ''myapp''\<rparr>),
          ConfigMapObj (exampleConfigMap\<lparr>ObjectMeta.Namespace := ''myapp''\<rparr>),
          RoleBindingObj
            (exampleRoleBinding
               \<lparr>ObjectMeta.Namespace := ''kubevirt'',
                Subjects := [\<lparr>Subject.Kind = ''ServiceAccount'', APIGroup = '''',
                             Name = ''create-vm-task'', Namespace = ''kubevirt''\<rparr>]\<rparr>),
          ServiceAccountObj
            ((exampleServiceAccount ''create-vm-task'')\<lparr>ObjectMeta.Namespace := ''kubevirt''\<rparr>)]"
proof -
  have override: "namespaceOverride (exampleRequest True ''myapp'' ''1.2.0'' True) = Some ''myapp''"
    by (simp add: namespaceOverride_def exampleRequest_def)
  have namespace:
    "ObjectMeta.Namespace (Instance (exampleRequest True ''myapp'' ''1.2.0'' True)) = ''kubevirt''"
    by (simp add: exampleRequest_def)
  have rb: "ClusterResource
        (snd (roleBindingBuilder 0 (exampleRequest True ''myapp'' ''1.2.0'' True) exampleOperand))
       = RoleBindingObj
           (exampleRoleBinding
              \<lparr>ObjectMeta.Namespace := ''kubevirt'',
               Subjects := [\<lparr>Subject.Kind = ''ServiceAccount'', APIGroup = '''',
                            Name = ''create-vm-task'', Namespace = ''kubevirt''\<rparr>]\<rparr>)"
    by (simp add: roleBindingBuilder_def Let_def namespace exampleOperand_def
          exampleRoleBinding_def)
  have elems:
    "pipelines exampleOperand = [examplePipeline]"
    "configMaps exampleOperand = [exampleConfigMap]"
    by (simp_all add: exampleOperand_def)
  show ?thesis
    using override_submitted
            [OF override, of 0 exampleOperand exampleEnv fakeGateway]
    by (simp add: override namespace rb example_submitted elems)
qed

subsection \<open>Cleanup\<close>

lemma DeleteAll_results:
  "\<exists>results. DeleteAll del request objects c
                = (Inr results, fold (\<lambda>obj c. snd (del request obj c)) objects c)
            \<and> map CleanupResult.Resource results = objects"
proof (induction objects arbitrary: c)
  case Nil
  show ?case by simp
next
  case (Cons obj objects)
  obtain outcome c' where d: "del request obj c = (outcome, c')"
    by (cases "del request obj c")
  from Cons [of c'] obtain results where
    "DeleteAll del request objects c'
       = (Inr results, fold (\<lambda>obj c. snd (del request obj c)) objects c')"
    "map CleanupResult.Resource results = objects"
    by blast
  then show ?case
    using d by simp
qed

text \<open>
  C9. \<open>Cleanup\<close> hands to \<open>DeleteAll\<close> a copy of every object of the five slices:
  pipelines, config maps, role bindings, service accounts and cluster roles, in this
  order and whatever the request says, so also the service accounts that a pass
  skips. The result holds one \<open>CleanupResult\<close> for each of them, the cluster is what
  the deletions of these objects, one after the other, leave, and the stored objects
  and the logger are as before.
\<close>

theorem Cleanup_every_object:
  "\<exists>results.
     fst (Cleanup del request w) = Inr results
     \<and> map CleanupResult.Resource results
         = map PipelineObj (pipelines (operand w))
           @ map ConfigMapObj (configMaps (operand w))
           @ map RoleBindingObj (roleBindings (operand w))
           @ map ServiceAccountObj (serviceAccounts (operand w))
           @ map ClusterRoleObj (clusterRoles (operand w))
     \<and> length results
         = length (pipelines (operand w)) + length (configMaps (operand w))
           + length (roleBindings (operand w)) + length (serviceAccounts (operand w))
           + length (clusterRoles (operand w))
     \<and> cluster (snd (Cleanup del request w))
         = fold (\<lambda>obj c. snd (del request obj c))
             (map CleanupResult.Resource results) (cluster w)
     \<and> operand (snd (Cleanup del request w)) = operand w
     \<and> logger (snd (Cleanup del request w)) = logger w"
proof -
  let ?objects = "map PipelineObj (pipelines (operand w))
           @ map ConfigMapObj (configMaps (operand w))
           @ map RoleBindingObj (roleBindings (operand w))
           @ map ServiceAccountObj (serviceAccounts (operand w))
           @ map ClusterRoleObj (clusterRoles (operand w))"
  obtain results where
    d: "DeleteAll del request ?objects (cluster w)
          = (Inr results, fold (\<lambda>obj c. snd (del request obj c)) ?objects (cluster w))"
    and r: "map CleanupResult.Resource results = ?objects"
    using DeleteAll_results [of del request ?objects "cluster w"] by blast
  have c: "Cleanup del request w
             = (Inr results,
                w\<lparr>cluster := fold (\<lambda>obj c. snd (del request obj c)) ?objects (cluster w)\<rparr>)"
    using d by (simp add: Cleanup_def DeepCopy_def Let_def comp_def)
  have "length results = length ?objects"
    using r by (metis length_map)
  then have l: "length results
         = length (pipelines (operand w)) + length (configMaps (operand w))
           + length (roleBindings (operand w)) + length (serviceAccounts (operand w))
           + length (clusterRoles (operand w))"
    by simp
  show ?thesis
    using r l by (intro exI [of _ results]) (simp add: c)
qed

theorem Cleanup_every_object_witness:
  "Cleanup fakeDelete (exampleRequest True ''myapp'' ''1.2.0'' True) exampleWorld
     = (Inr [\<lparr>CleanupResult.Resource = PipelineObj examplePipeline, Outcome = Deleted\<rparr>,
             \<lparr>CleanupResult.Resource = ConfigMapObj exampleConfigMap, Outcome = Deleted\<rparr>,
             \<lparr>CleanupResult.Resource = RoleBindingObj exampleRoleBinding, Outcome = Deleted\<rparr>,
             \<lparr>CleanupResult.Resource = ServiceAccountObj (exampleServiceAccount ''pipeline''),
              Outcome = AlreadyAbsent\<rparr>,
             \<lparr>CleanupResult.Resource = ServiceAccountObj (exampleServiceAccount ''create-vm-task''),
              Outcome = Deleted\<rparr>,
             \<lparr>CleanupResult.Resource = ClusterRoleObj exampleClusterRole, Outcome = Deleted\<rparr>],
        exampleWorld
          \<lparr>cluster := [PipelineObj examplePipeline, ConfigMapObj exampleConfigMap,
                       RoleBindingObj exampleRoleBinding,
                       ServiceAccountObj (exampleServiceAccount ''pipeline''),
                       ServiceAccountObj (exampleServiceAccount ''create-vm-task''),
                       ClusterRoleObj exampleClusterRole]\<rparr>)"
proof -
  obtain results where
    "fst (Cleanup fakeDelete (exampleRequest True ''myapp'' ''1.2.0'' True) exampleWorld)
       = Inr results"
    "length results
       = length (pipelines (operand exampleWorld)) + length (configMaps (operand exampleWorld))
         + length (roleBindings (operand exampleWorld))
         + length (serviceAccounts (operand exampleWorld))
         + length (clusterRoles (operand exampleWorld))"
    using Cleanup_every_object
            [of fakeDelete "exampleRequest True ''myapp'' ''1.2.0'' True" exampleWorld]
    by blast
  then show ?thesis
    by (simp add: Cleanup_def DeepCopy_def Let_def fakeDelete_def exampleWorld_def
          exampleOperand_def examplePipeline_def exampleConfigMap_def exampleRoleBinding_def
          exampleServiceAccount_def exampleClusterRole_def)
qed

end
